theory Spec2Isabelle
  imports Main
begin

section \<open>Errors and results\<close>

text \<open>
  The Go code reports failure through \<open>error\<close> values and, in one place, through a
  run-time panic. An \<open>error\<close> is one of: the engine's \<open>ErrKeyNotFound\<close>, any other
  failure the storage engine reports (named by its message), a failure of the random
  source, or an error wrapped by \<open>fmt.Errorf("...: %w", err)\<close>.
\<close>

datatype error =
    ErrKeyNotFound
  | ErrEngine string
  | ErrEntropy
  | Wrapped string error

text \<open>\<open>errors.Is(err, target)\<close> follows the chain of wrapped errors.\<close>

fun errors_Is :: "error \<Rightarrow> error \<Rightarrow> bool" where
  "errors_Is (Wrapped m e) target = (Wrapped m e = target \<or> errors_Is e target)"
| "errors_Is e target = (e = target)"

text \<open>The outcome of a Go call that returns \<open>(value, error)\<close> and may also panic.\<close>

datatype 'a result = Ok 'a | Err error | Panic

section \<open>Code generator\<close>

text \<open>
  \<open>crypto/rand\<close> belongs to Go's standard library, not to the repository. Its reader is
  an entropy source: a finite sequence of candidates, each either a failed read
  (\<open>None\<close>) or a number. \<open>rand.Int(rand.Reader, max)\<close> draws candidates until one is
  below \<open>max\<close> (rejection sampling) and fails when a read fails or the source ends.
\<close>

type_synonym entropy = "nat option list"

fun rand_Int :: "nat \<Rightarrow> entropy \<Rightarrow> (error + nat) \<times> entropy" where
  "rand_Int m [] = (Inl ErrEntropy, [])"
| "rand_Int m (None # ds) = (Inl ErrEntropy, ds)"
| "rand_Int m (Some k # ds) = (if k < m then (Inr k, ds) else rand_Int m ds)"

definition letters :: string where
  "letters = ''0123456789ABCDEFGHIJKLMNOPQRSTUVWXYZabcdefghijklmnopqrstuvwxyz''"

text \<open>
  The loop of \<open>GenerateRandomString\<close>: \<open>for i := 0; i < n; i++\<close>, writing \<open>ret[i]\<close>.
  Indexing \<open>letters\<close> out of range would panic in Go, which the model keeps as a branch.
\<close>

function GenerateRandomString_loop ::
  "nat \<Rightarrow> nat \<Rightarrow> string \<Rightarrow> entropy \<Rightarrow> string result" where
  "GenerateRandomString_loop i n ret src =
     (if i < n then
        (case rand_Int (length letters) src of
           (Inl err, src') \<Rightarrow> Err err
         | (Inr num, src') \<Rightarrow>
             if num < length letters
             then GenerateRandomString_loop (Suc i) n (ret[i := letters ! num]) src'
             else Panic)
      else Ok ret)"
  by pat_completeness auto
termination
  by (relation "measure (\<lambda>(i, n, ret, src). n - i)") auto

text \<open>
  The largest allocation the Go runtime accepts on the 64-bit Linux platforms the
  service is built for (\<open>maxAlloc\<close> of the runtime, 48 address bits).
\<close>

definition maxAlloc :: int where
  "maxAlloc = 2 ^ 48"

text \<open>
  \<open>make([]byte, n)\<close> panics with \<open>len out of range\<close> for a negative \<open>n\<close> and for an
  \<open>n\<close> above \<open>maxAlloc\<close>; otherwise the buffer holds \<open>n\<close> zero bytes. (Running out of
  memory below that limit ends the process with a fatal error of the runtime, not a
  panic, and is outside the model.)
\<close>

definition GenerateRandomString :: "int \<Rightarrow> entropy \<Rightarrow> string result" where
  "GenerateRandomString n src =
     (if n < 0 \<or> maxAlloc < n then Panic
      else GenerateRandomString_loop 0 (nat n) (replicate (nat n) (CHR 0x00)) src)"

section \<open>Configuration\<close>

text \<open>
  \<open>strconv.Atoi\<close> of Go's standard library (not part of the repository), for the 64-bit
  \<open>int\<close> of the platforms the service is built for: an optional sign, then one or more
  decimal digits and nothing else; a value outside the range of \<open>int\<close> is an error.
  \<open>None\<close> stands for a non-nil \<open>err\<close>.
\<close>

fun digits_value :: "string \<Rightarrow> nat \<Rightarrow> nat option" where
  "digits_value [] n = Some n"
| "digits_value (ch # s) n =
     (if (48::nat) \<le> of_char ch \<and> of_char ch \<le> (57::nat)
      then digits_value s (n * 10 + (of_char ch - 48))
      else None)"

definition Atoi :: "string \<Rightarrow> int option" where
  "Atoi s0 =
     (if s0 = [] then None
      else
        let s = (if hd s0 = CHR ''-'' \<or> hd s0 = CHR ''+'' then tl s0 else s0) in
        if s = [] then None
        else
          (case digits_value s 0 of
             None \<Rightarrow> None
           | Some n \<Rightarrow>
               let v = (if hd s0 = CHR ''-'' then - int n else int n) in
               if - (2 ^ 63) \<le> v \<and> v < 2 ^ 63 then Some v else None))"

text \<open>\<open>os.Getenv\<close> returns the empty string for a variable that is not set.\<close>

definition Getenv :: "string option \<Rightarrow> string" where
  "Getenv v = (case v of None \<Rightarrow> [] | Some s \<Rightarrow> s)"

text \<open>
  The short-code length computed in \<open>main\<close> from the environment variable
  \<open>SHORT_CODE_LENGTH\<close>: the parsed value, or 6 when \<open>Atoi\<close> reports an error.
\<close>

definition main_shortCode :: "string option \<Rightarrow> int" where
  "main_shortCode SHORT_CODE_LENGTH =
     (case Atoi (Getenv SHORT_CODE_LENGTH) of None \<Rightarrow> 6 | Some shortCode \<Rightarrow> shortCode)"

section \<open>Storage engine\<close>

text \<open>
  The embedded key-value engine is an external dependency. Its state is a finite map
  from keys to items; an item carries its value and the Unix time in seconds at which
  it expires, as an unsigned 64-bit number, 0 meaning no expiry.
\<close>

record item =
  Value :: string
  ExpiresAt :: nat

type_synonym store = "string \<rightharpoonup> item"

text \<open>
  What one transaction meets: the wall clock \<open>now\<close> in nanoseconds since the Unix
  epoch, \<open>fault\<close> when the engine fails or rejects the transaction for a reason of its
  own (closed database, rejected key, I/O failure, conflict on commit), and
  \<open>copy_fault\<close> when reading an item's value out of the value log fails.
\<close>

record txenv =
  now :: int
  fault :: "string option"
  copy_fault :: "string option"

text \<open>Go's conversions to \<open>int64\<close> and \<open>uint64\<close> wrap around.\<close>

definition int64 :: "int \<Rightarrow> int" where
  "int64 x = (x + 2 ^ 63) mod 2 ^ 64 - 2 ^ 63"

definition uint64 :: "int \<Rightarrow> nat" where
  "uint64 x = nat (x mod 2 ^ 64)"

text \<open>\<open>time.Minute\<close>, a \<open>time.Duration\<close>: a count of nanoseconds held in an \<open>int64\<close>.\<close>

definition Minute :: int where
  "Minute = 60000000000"

text \<open>\<open>Time.Unix()\<close>: whole seconds since the epoch.\<close>

definition Unix :: "int \<Rightarrow> int" where
  "Unix t = t div 1000000000"

text \<open>An item with an expiry time that is not after the clock is treated as absent.\<close>

definition isExpired :: "item \<Rightarrow> int \<Rightarrow> bool" where
  "isExpired it t = (ExpiresAt it \<noteq> 0 \<and> ExpiresAt it \<le> uint64 (Unix t))"

definition txn_Get :: "txenv \<Rightarrow> store \<Rightarrow> string \<Rightarrow> error + item" where
  "txn_Get e db key =
     (case fault e of
        Some m \<Rightarrow> Inl (ErrEngine m)
      | None \<Rightarrow>
          (case db key of
             None \<Rightarrow> Inl ErrKeyNotFound
           | Some it \<Rightarrow> if isExpired it (now e) then Inl ErrKeyNotFound else Inr it))"

definition NewEntry :: "string \<Rightarrow> item" where
  "NewEntry v = \<lparr>Value = v, ExpiresAt = 0\<rparr>"

text \<open>\<open>Entry.WithTTL(dur)\<close> sets \<open>ExpiresAt = uint64(time.Now().Add(dur).Unix())\<close>.\<close>

definition WithTTL :: "txenv \<Rightarrow> item \<Rightarrow> int \<Rightarrow> item" where
  "WithTTL e entry dur = entry\<lparr>ExpiresAt := uint64 (Unix (now e + dur))\<rparr>"

text \<open>
  A read-write transaction either commits its one write or, on a fault, leaves the
  store as it was and returns the error.
\<close>

definition txn_SetEntry :: "txenv \<Rightarrow> store \<Rightarrow> string \<Rightarrow> item \<Rightarrow> error option \<times> store" where
  "txn_SetEntry e db key entry =
     (case fault e of
        Some m \<Rightarrow> (Some (ErrEngine m), db)
      | None \<Rightarrow> (None, db(key \<mapsto> entry)))"

definition txn_Delete :: "txenv \<Rightarrow> store \<Rightarrow> string \<Rightarrow> error option \<times> store" where
  "txn_Delete e db key =
     (case fault e of
        Some m \<Rightarrow> (Some (ErrEngine m), db)
      | None \<Rightarrow> (None, db(key := None)))"

section \<open>Key-value store adapter\<close>

text \<open>
  \<open>KV.Exists\<close>: the closure sets \<open>exists\<close> when the lookup returns an item; afterwards
  an error that is \<open>ErrKeyNotFound\<close> is replaced by \<open>nil\<close>.
\<close>

definition KV_Exists :: "txenv \<Rightarrow> store \<Rightarrow> string \<Rightarrow> bool \<times> error option" where
  "KV_Exists e db key =
     (let (exists, err) =
            (case txn_Get e db key of
               Inl err \<Rightarrow> (False, Some err)
             | Inr val \<Rightarrow> (True, None));
          err = (case err of
                   None \<Rightarrow> None
                 | Some x \<Rightarrow> if errors_Is x ErrKeyNotFound then None else Some x)
      in (exists, err))"

definition KV_Get :: "txenv \<Rightarrow> store \<Rightarrow> string \<Rightarrow> string \<times> error option" where
  "KV_Get e db key =
     (case txn_Get e db key of
        Inl err \<Rightarrow> ([], Some (Wrapped ''getting value: '' err))
      | Inr it \<Rightarrow>
          (case copy_fault e of
             Some m \<Rightarrow> ([], Some (Wrapped ''copying value: '' (ErrEngine m)))
           | None \<Rightarrow> (Value it, None)))"

text \<open>
  \<open>KV.Set\<close>: \<open>time.Duration(expiryMinutes) * time.Minute\<close> is a product of two
  \<open>int64\<close> values and wraps around.
\<close>

definition KV_Set :: "txenv \<Rightarrow> store \<Rightarrow> string \<Rightarrow> string \<Rightarrow> int \<Rightarrow> error option \<times> store" where
  "KV_Set e db key v expiryMinutes =
     (if expiryMinutes = 0 then txn_SetEntry e db key (NewEntry v)
      else
        let entry = NewEntry v;
            entry = WithTTL e entry (int64 (int64 expiryMinutes * Minute))
        in txn_SetEntry e db key entry)"

definition KV_Delete :: "txenv \<Rightarrow> store \<Rightarrow> string \<Rightarrow> error option \<times> store" where
  "KV_Delete e db key = txn_Delete e db key"

section \<open>Request handlers\<close>

text \<open>
  What a handler sends back: a redirect, a bare status, or a status with a one-field
  JSON object. \<open>Crash\<close> is a panic that leaves the handler.
\<close>

datatype response =
    RedirectTo string
  | SendStatus nat
  | StatusJSON nat string string
  | Crash

abbreviation StatusCreated :: nat where "StatusCreated \<equiv> 201"
abbreviation StatusNoContent :: nat where "StatusNoContent \<equiv> 204"
abbreviation StatusBadRequest :: nat where "StatusBadRequest \<equiv> 400"
abbreviation StatusNotFound :: nat where "StatusNotFound \<equiv> 404"
abbreviation StatusInternalServerError :: nat where "StatusInternalServerError \<equiv> 500"

text \<open>
  The form fields of a shorten request, as \<open>c.FormValue(name, "")\<close> returns them: the
  empty string for a field that is missing.
\<close>

record form =
  custom :: string
  url :: string
  expiry :: string

text \<open>
  Each handler runs its transactions one after the other, each against its own
  \<open>txenv\<close>; no other request touches the store in between.
\<close>

definition redirectHandler :: "txenv \<Rightarrow> txenv \<Rightarrow> store \<Rightarrow> string \<Rightarrow> response" where
  "redirectHandler e1 e2 db shortCode =
     (case KV_Exists e1 db shortCode of
        (exists, Some err) \<Rightarrow> SendStatus StatusInternalServerError
      | (exists, None) \<Rightarrow>
          if \<not> exists then SendStatus StatusNotFound
          else
            (case KV_Get e2 db shortCode of
               (u, Some err) \<Rightarrow> SendStatus StatusInternalServerError
             | (u, None) \<Rightarrow> RedirectTo u))"

text \<open>The second half of \<open>createHandler\<close>: choose the code, then write.\<close>

definition createHandler_write ::
  "entropy \<Rightarrow> txenv \<Rightarrow> store \<Rightarrow> string \<Rightarrow> string \<Rightarrow> int \<Rightarrow> int \<Rightarrow> response \<times> store" where
  "createHandler_write rnd e db shortCode u expiryMinutes shortCodeLength =
     (case (if shortCode = [] then GenerateRandomString shortCodeLength rnd
            else Ok shortCode) of
        Panic \<Rightarrow> (Crash, db)
      | Err err \<Rightarrow> (SendStatus StatusInternalServerError, db)
      | Ok shortCode \<Rightarrow>
          (case KV_Set e db shortCode u expiryMinutes of
             (Some err, db') \<Rightarrow> (SendStatus StatusInternalServerError, db')
           | (None, db') \<Rightarrow> (StatusJSON StatusCreated ''short_code'' shortCode, db')))"

definition createHandler ::
  "entropy \<Rightarrow> txenv \<Rightarrow> store \<Rightarrow> form \<Rightarrow> int \<Rightarrow> response \<times> store" where
  "createHandler rnd e db c shortCodeLength =
     (if url c = [] then (StatusJSON StatusBadRequest ''error'' ''url is required'', db)
      else if expiry c \<noteq> [] then
        (case Atoi (expiry c) of
           None \<Rightarrow> (StatusJSON StatusBadRequest ''error'' ''expiry must be a number'', db)
         | Some exp \<Rightarrow>
             if exp < 1
             then (StatusJSON StatusBadRequest ''error'' ''expiry must be greater than 0'', db)
             else createHandler_write rnd e db (custom c) (url c) exp shortCodeLength)
      else createHandler_write rnd e db (custom c) (url c) 0 shortCodeLength)"

definition deleteHandler :: "txenv \<Rightarrow> txenv \<Rightarrow> store \<Rightarrow> string \<Rightarrow> response \<times> store" where
  "deleteHandler e1 e2 db shortCode =
     (case KV_Exists e1 db shortCode of
        (exists, Some err) \<Rightarrow> (SendStatus StatusInternalServerError, db)
      | (exists, None) \<Rightarrow>
          if \<not> exists then (SendStatus StatusNotFound, db)
          else
            (case KV_Delete e2 db shortCode of
               (Some err, db') \<Rightarrow> (SendStatus StatusInternalServerError, db')
             | (None, db') \<Rightarrow> (SendStatus StatusNoContent, db')))"

text \<open>
  The error classes of the specification, read off a response: a validation error is
  a 400, not-found is a 404, a store error is a 500.
\<close>

fun isValidationError :: "response \<Rightarrow> bool" where
  "isValidationError (StatusJSON code k m) = (code = StatusBadRequest)"
| "isValidationError r = False"

definition NotFoundError :: response where
  "NotFoundError = SendStatus StatusNotFound"

text \<open>Whether the store holds an item under the key that has expired by time \<open>t\<close>.\<close>

definition expired :: "store \<Rightarrow> string \<Rightarrow> int \<Rightarrow> bool" where
  "expired db key t = (case db key of None \<Rightarrow> False | Some it \<Rightarrow> isExpired it t)"

text \<open>A live record: present and not expired.\<close>

definition live :: "store \<Rightarrow> string \<Rightarrow> int \<Rightarrow> bool" where
  "live db key t = (case db key of None \<Rightarrow> False | Some it \<Rightarrow> \<not> isExpired it t)"

text \<open>A transaction environment in which the engine does not fail.\<close>

definition healthy :: "txenv \<Rightarrow> bool" where
  "healthy e = (fault e = None \<and> copy_fault e = None)"

section \<open>Properties of the code generator\<close>

lemma length_letters: "length letters = 62"
  by (simp add: letters_def)

lemma rand_Int_range: "rand_Int m src = (Inr k, src') \<Longrightarrow> k < m"
  by (induction m src rule: rand_Int.induct) (auto split: if_splits)

lemma loop_invariant:
  assumes "GenerateRandomString_loop i n ret src = Ok s"
    and "length ret = n"
    and "\<forall>j < i. ret ! j \<in> set letters"
    and "i \<le> n"
  shows "length s = n \<and> (\<forall>j < n. s ! j \<in> set letters)"
  using assms
proof (induction i n ret src rule: GenerateRandomString_loop.induct)
  case (1 i n ret src)
  show ?case
  proof (cases "i < n")
    case False
    with "1.prems" show ?thesis by simp
  next
    case True
    obtain r src' where r: "rand_Int (length letters) src = (r, src')"
      by (cases "rand_Int (length letters) src")
    show ?thesis
    proof (cases r)
      case (Inl err)
      with True r "1.prems"(1) show ?thesis by simp
    next
      case (Inr num)
      with True r "1.prems"(1) have lt: "num < length letters"
        by (simp split: if_splits)
      let ?ret = "ret[i := letters ! num]"
      from True r Inr lt "1.prems"(1)
      have run: "GenerateRandomString_loop (Suc i) n ?ret src' = Ok s"
        by simp
      have len: "length ?ret = n"
        using "1.prems"(2) by simp
      have inv: "\<forall>j < Suc i. ?ret ! j \<in> set letters"
      proof (intro allI impI)
        fix j assume "j < Suc i"
        then consider "j = i" | "j < i" by linarith
        then show "?ret ! j \<in> set letters"
        proof cases
          case 1
          with True "1.prems"(2) lt show ?thesis by simp
        next
          case 2
          with "1.prems"(3) show ?thesis by simp
        qed
      qed
      from True have le: "Suc i \<le> n" by simp
      from "1.IH"[OF True r[symmetric] Inr lt run len inv le]
      show ?thesis .
    qed
  qed
qed

lemma loop_no_panic: "GenerateRandomString_loop i n ret src \<noteq> Panic"
proof (induction i n ret src rule: GenerateRandomString_loop.induct)
  case (1 i n ret src)
  show ?case
  proof (cases "i < n")
    case False
    then show ?thesis by simp
  next
    case True
    obtain r src' where r: "rand_Int (length letters) src = (r, src')"
      by (cases "rand_Int (length letters) src")
    show ?thesis
    proof (cases r)
      case (Inl err)
      with True r show ?thesis by simp
    next
      case (Inr num)
      with r have lt: "num < length letters"
        by (simp add: rand_Int_range)
      from "1.IH"[OF True r[symmetric] Inr lt] True r Inr lt
      show ?thesis by simp
    qed
  qed
qed

lemma distinct_letters: "distinct letters"
  by (simp add: letters_def)

lemma card_letters: "card (set letters) = 62"
  using distinct_card[OF distinct_letters] length_letters by simp

text \<open>
  Claim C2. For every length of at least 1, a successful \<open>GenerateRandomString\<close> returns
  a string of exactly that many characters, each of them one of the 62 characters of
  the alphabet \<open>0-9A-Za-z\<close>.
\<close>

theorem GenerateRandomString_length_alphabet:
  assumes "1 \<le> n" and "GenerateRandomString n src = Ok s"
  shows "int (length s) = n \<and> (\<forall>c \<in> set s. c \<in> set letters) \<and> card (set letters) = 62"
proof -
  from assms have run:
    "GenerateRandomString_loop 0 (nat n) (replicate (nat n) (CHR 0x00)) src = Ok s"
    by (simp add: GenerateRandomString_def split: if_splits)
  have "length s = nat n \<and> (\<forall>j < nat n. s ! j \<in> set letters)"
    by (rule loop_invariant[OF run]) simp_all
  then have len: "length s = nat n" and mem: "\<forall>j < length s. s ! j \<in> set letters"
    by simp_all
  from mem have "\<forall>c \<in> set s. c \<in> set letters"
    by (auto simp: in_set_conv_nth)
  with len assms(1) card_letters show ?thesis by simp
qed

theorem GenerateRandomString_length_alphabet_witness:
  "(1::int) \<le> 6
   \<and> GenerateRandomString 6 [Some 10, Some 99, Some 11, Some 0, Some 61, Some 36, Some 5]
       = Ok ''AB0za5''
   \<and> int (length ''AB0za5'') = 6 \<and> set ''AB0za5'' \<subseteq> set letters
   \<and> card (set letters) = 62"
proof -
  have h: "(1::int) \<le> 6" by simp
  have r: "GenerateRandomString 6 [Some 10, Some 99, Some 11, Some 0, Some 61, Some 36, Some 5]
             = Ok ''AB0za5''"
    by code_simp
  from GenerateRandomString_length_alphabet[OF h r] h r show ?thesis by blast
qed

section \<open>Properties of the configuration\<close>

text \<open>Whatever \<open>Atoi\<close> accepts is a sign or digit followed by digits, in the range of \<open>int\<close>.\<close>

lemma digits_value_Some:
  "digits_value s n = Some m \<Longrightarrow>
     \<forall>ch \<in> set s. (48::nat) \<le> of_char ch \<and> of_char ch \<le> (57::nat)"
  by (induction s arbitrary: n) (auto split: if_splits)

lemma Atoi_Some_digits:
  assumes "Atoi s = Some v"
  shows "s \<noteq> [] \<and> (\<forall>ch \<in> set (tl s). (48::nat) \<le> of_char ch \<and> of_char ch \<le> (57::nat))
         \<and> - (2 ^ 63) \<le> v \<and> v < 2 ^ 63"
proof -
  from assms have ne: "s \<noteq> []"
    by (auto simp: Atoi_def)
  let ?d = "if hd s = CHR ''-'' \<or> hd s = CHR ''+'' then tl s else s"
  from assms ne obtain n where n: "digits_value ?d 0 = Some n"
    by (auto simp: Atoi_def Let_def split: if_splits option.splits)
  from assms ne have rng: "- (2 ^ 63) \<le> v \<and> v < 2 ^ 63"
    by (auto simp: Atoi_def Let_def split: if_splits option.splits)
  from digits_value_Some[OF n]
  have "\<forall>ch \<in> set ?d. (48::nat) \<le> of_char ch \<and> of_char ch \<le> (57::nat)" .
  moreover from ne have "set (tl s) \<subseteq> set ?d"
    by (cases s) auto
  ultimately show ?thesis using ne rng by blast
qed


lemma Atoi_minus_one: "Atoi ''-1'' = Some (- 1)"
  by (simp add: Atoi_def)


text \<open>
  \<open>GenerateRandomString\<close> panics exactly when \<open>make\<close> refuses the length.
\<close>

lemma GenerateRandomString_Panic_iff:
  "GenerateRandomString n src = Panic \<longleftrightarrow> n < 0 \<or> maxAlloc < n"
  by (simp add: GenerateRandomString_def loop_no_panic del: GenerateRandomString_loop.simps)



section \<open>Properties of the store adapter and the handlers\<close>

lemma KV_Exists_eq:
  "KV_Exists e db key =
     (case fault e of
        Some m \<Rightarrow> (False, Some (ErrEngine m))
      | None \<Rightarrow> (live db key (now e), None))"
  by (simp add: KV_Exists_def txn_Get_def live_def split: option.splits)

lemma KV_Get_live:
  assumes "healthy e" and "db key = Some it" and "\<not> isExpired it (now e)"
  shows "KV_Get e db key = (Value it, None)"
  using assms by (simp add: KV_Get_def txn_Get_def healthy_def)

lemma txn_SetEntry_eq:
  "txn_SetEntry e db key entry = (r, db') \<Longrightarrow>
     (r = None \<and> fault e = None \<and> db' = db(key \<mapsto> entry)) \<or> (r \<noteq> None \<and> db' = db)"
  by (auto simp: txn_SetEntry_def split: option.splits)

lemma Value_WithTTL: "Value (WithTTL e entry dur) = Value entry"
  by (simp add: WithTTL_def)

lemma KV_Set_eq:
  assumes "KV_Set e db key v m = (r, db')"
  shows "(r = None \<and> fault e = None \<and> (\<exists>it. Value it = v \<and> db' = db(key \<mapsto> it)))
         \<or> (r \<noteq> None \<and> db' = db)"
proof (cases "m = 0")
  case True
  with assms have "txn_SetEntry e db key (NewEntry v) = (r, db')"
    by (simp add: KV_Set_def)
  from txn_SetEntry_eq[OF this] have
    "(r = None \<and> fault e = None \<and> db' = db(key \<mapsto> NewEntry v)) \<or> (r \<noteq> None \<and> db' = db)" .
  moreover have "Value (NewEntry v) = v"
    by (simp add: NewEntry_def)
  ultimately show ?thesis by blast
next
  case False
  let ?entry = "WithTTL e (NewEntry v) (int64 (int64 m * Minute))"
  from False assms have "txn_SetEntry e db key ?entry = (r, db')"
    by (simp add: KV_Set_def Let_def)
  from txn_SetEntry_eq[OF this] have
    "(r = None \<and> fault e = None \<and> db' = db(key \<mapsto> ?entry)) \<or> (r \<noteq> None \<and> db' = db)" .
  moreover have "Value ?entry = v"
    by (simp add: Value_WithTTL NewEntry_def)
  ultimately show ?thesis by blast
qed

lemma createHandler_write_Created:
  assumes "createHandler_write rnd e db sc u m len = (StatusJSON StatusCreated k code, db')"
  shows "fault e = None \<and> (\<exists>it. Value it = u \<and> db' = db(code \<mapsto> it))
         \<and> (sc \<noteq> [] \<longrightarrow> code = sc)"
proof -
  obtain g where g: "(if sc = [] then GenerateRandomString len rnd else Ok sc) = g"
    by simp
  show ?thesis
  proof (cases g)
    case (Ok code')
    obtain r d where s: "KV_Set e db code' u m = (r, d)"
      by (cases "KV_Set e db code' u m")
    from assms g Ok s have "r = None" and "code = code'" and "d = db'"
      by (auto simp: createHandler_write_def split: option.splits)
    with KV_Set_eq[OF s] g Ok show ?thesis
      by (auto split: if_splits)
  next
    case (Err x)
    with assms g show ?thesis by (simp add: createHandler_write_def)
  next
    case Panic
    with assms g show ?thesis by (simp add: createHandler_write_def)
  qed
qed

lemma createHandler_Created:
  assumes "createHandler rnd e db c len = (StatusJSON StatusCreated k code, db')"
  shows "url c \<noteq> [] \<and> fault e = None \<and> (\<exists>it. Value it = url c \<and> db' = db(code \<mapsto> it))
         \<and> (custom c \<noteq> [] \<longrightarrow> code = custom c)"
proof -
  from assms obtain m where
    "createHandler_write rnd e db (custom c) (url c) m len = (StatusJSON StatusCreated k code, db')"
    and "url c \<noteq> []"
    by (auto simp: createHandler_def split: if_splits option.splits)
  with createHandler_write_Created[of rnd e db "custom c" "url c" m len k code db']
  show ?thesis by simp
qed

text \<open>A shorten request with a custom code and no expiry succeeds when the engine commits.\<close>

lemma createHandler_custom_ok:
  assumes "url c \<noteq> []" and "expiry c = []" and "custom c \<noteq> []" and "fault e = None"
  shows "createHandler rnd e db c len
           = (StatusJSON StatusCreated ''short_code'' (custom c),
              db(custom c \<mapsto> \<lparr>Value = url c, ExpiresAt = 0\<rparr>))"
  using assms
  by (simp add: createHandler_def createHandler_write_def KV_Set_def txn_SetEntry_def
      NewEntry_def)

lemma redirectHandler_live:
  assumes "fault e1 = None" and "healthy e2" and "db code = Some it"
    and "\<not> isExpired it (now e1)" and "\<not> isExpired it (now e2)"
  shows "redirectHandler e1 e2 db code = RedirectTo (Value it)"
  using assms
  by (simp add: redirectHandler_def KV_Exists_eq live_def KV_Get_live)

lemma redirectHandler_absent:
  assumes "fault e1 = None" and "\<not> live db code (now e1)"
  shows "redirectHandler e1 e2 db code = SendStatus StatusNotFound"
  using assms by (simp add: redirectHandler_def KV_Exists_eq)

text \<open>
  Claim C1. Round trip: when a shorten request with a non-empty url is answered with
  code \<open>code\<close>, a redirect request for \<open>code\<close> on the resulting store, with no removal
  in between, the record not expired and the engine not failing, redirects to exactly
  that url.
\<close>

theorem create_resolve_roundtrip:
  assumes "url c \<noteq> []"
    and "createHandler rnd e db c len = (StatusJSON StatusCreated ''short_code'' code, db')"
    and "fault e1 = None" and "healthy e2"
    and "\<not> expired db' code (now e1)" and "\<not> expired db' code (now e2)"
  shows "redirectHandler e1 e2 db' code = RedirectTo (url c)"
proof -
  from createHandler_Created[OF assms(2)] obtain it where
    v: "Value it = url c" and d: "db' = db(code \<mapsto> it)"
    by blast
  from d have "db' code = Some it" by simp
  note it = v this
  with assms(5,6) have "\<not> isExpired it (now e1)" "\<not> isExpired it (now e2)"
    by (simp_all add: expired_def)
  from redirectHandler_live[of e1 e2 db' code it, OF assms(3,4) it(2) this] it(1)
  show ?thesis by simp
qed

theorem create_resolve_roundtrip_witness:
  "url \<lparr>custom = [], url = ''https://example.com'', expiry = ''5''\<rparr> \<noteq> []
   \<and> createHandler [Some 10, Some 99, Some 11, Some 0, Some 61, Some 36, Some 5]
        \<lparr>now = 1700000000000000000, fault = None, copy_fault = None\<rparr> Map.empty
        \<lparr>custom = [], url = ''https://example.com'', expiry = ''5''\<rparr> 6
       = (StatusJSON StatusCreated ''short_code'' ''AB0za5'',
          [''AB0za5'' \<mapsto> \<lparr>Value = ''https://example.com'', ExpiresAt = 1700000300\<rparr>])
   \<and> redirectHandler \<lparr>now = 1700000100000000000, fault = None, copy_fault = None\<rparr>
        \<lparr>now = 1700000100000000500, fault = None, copy_fault = None\<rparr>
        [''AB0za5'' \<mapsto> \<lparr>Value = ''https://example.com'', ExpiresAt = 1700000300\<rparr>] ''AB0za5''
       = RedirectTo ''https://example.com''"
proof -
  let ?c = "\<lparr>custom = [], url = ''https://example.com'', expiry = ''5''\<rparr>"
  let ?e1 = "\<lparr>now = 1700000100000000000, fault = None, copy_fault = None\<rparr>"
  let ?e2 = "\<lparr>now = 1700000100000000500, fault = None, copy_fault = None\<rparr>"
  let ?db' = "[''AB0za5'' \<mapsto> \<lparr>Value = ''https://example.com'', ExpiresAt = 1700000300\<rparr>]"
  have h1: "url ?c \<noteq> []" by simp
  have g: "GenerateRandomString 6 [Some 10, Some 99, Some 11, Some 0, Some 61, Some 36, Some 5]
            = Ok ''AB0za5''"
    by code_simp
  have a: "Atoi ''5'' = Some 5"
    by (simp add: Atoi_def)
  have h2: "createHandler [Some 10, Some 99, Some 11, Some 0, Some 61, Some 36, Some 5]
        \<lparr>now = 1700000000000000000, fault = None, copy_fault = None\<rparr> Map.empty ?c 6
       = (StatusJSON StatusCreated ''short_code'' ''AB0za5'', ?db')"
    by (simp add: createHandler_def createHandler_write_def g a KV_Set_def txn_SetEntry_def
        NewEntry_def WithTTL_def int64_def uint64_def Unix_def Minute_def)
  have h3: "fault ?e1 = None" by simp
  have h4: "healthy ?e2" by (simp add: healthy_def)
  have h5: "\<not> expired ?db' ''AB0za5'' (now ?e1)"
    by (simp add: expired_def isExpired_def uint64_def Unix_def)
  have h6: "\<not> expired ?db' ''AB0za5'' (now ?e2)"
    by (simp add: expired_def isExpired_def uint64_def Unix_def)
  from create_resolve_roundtrip[OF h1 h2 h3 h4 h5 h6] h1 h2 show ?thesis by simp
qed

lemma Atoi_abc: "Atoi ''abc'' = None"
  by (simp add: Atoi_def)

text \<open>
  Claim C3. A shorten request with an empty url is answered with a validation error,
  and so is one whose expiry field is supplied (not empty) and is not a number or is
  less than 1; in each case the store is left as it was.
\<close>

theorem createHandler_validation:
  assumes "url c = [] \<or> (expiry c \<noteq> [] \<and> (case Atoi (expiry c) of None \<Rightarrow> True | Some exp \<Rightarrow> exp < 1))"
  shows "isValidationError (fst (createHandler rnd e db c len))
         \<and> snd (createHandler rnd e db c len) = db"
  using assms by (auto simp: createHandler_def split: option.splits)

theorem createHandler_validation_witness:
  "createHandler [] \<lparr>now = 0, fault = None, copy_fault = None\<rparr> Map.empty
       \<lparr>custom = ''abc'', url = [], expiry = []\<rparr> 6
     = (StatusJSON StatusBadRequest ''error'' ''url is required'', Map.empty)
   \<and> createHandler [] \<lparr>now = 0, fault = None, copy_fault = None\<rparr> Map.empty
       \<lparr>custom = ''abc'', url = ''https://x.com'', expiry = ''-1''\<rparr> 6
     = (StatusJSON StatusBadRequest ''error'' ''expiry must be greater than 0'', Map.empty)
   \<and> createHandler [] \<lparr>now = 0, fault = None, copy_fault = None\<rparr> Map.empty
       \<lparr>custom = ''abc'', url = ''https://x.com'', expiry = ''abc''\<rparr> 6
     = (StatusJSON StatusBadRequest ''error'' ''expiry must be a number'', Map.empty)"
proof -
  let ?e = "\<lparr>now = 0, fault = None, copy_fault = None\<rparr>"
  let ?c1 = "\<lparr>custom = ''abc'', url = [], expiry = []\<rparr>"
  let ?c2 = "\<lparr>custom = ''abc'', url = ''https://x.com'', expiry = ''-1''\<rparr>"
  let ?c3 = "\<lparr>custom = ''abc'', url = ''https://x.com'', expiry = ''abc''\<rparr>"
  have h1: "url ?c1 = [] \<or> (expiry ?c1 \<noteq> [] \<and>
      (case Atoi (expiry ?c1) of None \<Rightarrow> True | Some exp \<Rightarrow> exp < 1))"
    by simp
  have h2: "url ?c2 = [] \<or> (expiry ?c2 \<noteq> [] \<and>
      (case Atoi (expiry ?c2) of None \<Rightarrow> True | Some exp \<Rightarrow> exp < 1))"
    by (simp add: Atoi_minus_one)
  have h3: "url ?c3 = [] \<or> (expiry ?c3 \<noteq> [] \<and>
      (case Atoi (expiry ?c3) of None \<Rightarrow> True | Some exp \<Rightarrow> exp < 1))"
    by (simp add: Atoi_abc)
  have r1: "fst (createHandler [] ?e Map.empty ?c1 6) = StatusJSON StatusBadRequest ''error'' ''url is required''"
    by (simp add: createHandler_def)
  have r2: "fst (createHandler [] ?e Map.empty ?c2 6) = StatusJSON StatusBadRequest ''error'' ''expiry must be greater than 0''"
    by (simp add: createHandler_def Atoi_minus_one)
  have r3: "fst (createHandler [] ?e Map.empty ?c3 6) = StatusJSON StatusBadRequest ''error'' ''expiry must be a number''"
    by (simp add: createHandler_def Atoi_abc)
  from createHandler_validation[OF h1, of "[]" ?e Map.empty 6]
    createHandler_validation[OF h2, of "[]" ?e Map.empty 6]
    createHandler_validation[OF h3, of "[]" ?e Map.empty 6] r1 r2 r3
  show ?thesis by (simp add: prod_eq_iff)
qed

text \<open>
  Claim C5. \<open>KV.Exists\<close> returns false and no error when the engine reports that the key
  is not found, true and no error when the key has a live record and the engine does
  not fail, and false together with the error for any other failure of the read.
\<close>

theorem KV_Exists_outcomes:
  "(txn_Get e db key = Inl ErrKeyNotFound \<longrightarrow> KV_Exists e db key = (False, None))
   \<and> (fault e = None \<and> live db key (now e) \<longrightarrow> KV_Exists e db key = (True, None))
   \<and> (\<forall>err. txn_Get e db key = Inl err \<and> \<not> errors_Is err ErrKeyNotFound
         \<longrightarrow> KV_Exists e db key = (False, Some err))"
  by (auto simp: KV_Exists_def txn_Get_def live_def split: option.splits if_splits)

theorem KV_Exists_outcomes_witness:
  "txn_Get \<lparr>now = 5000000000, fault = None, copy_fault = None\<rparr>
       [''abc'' \<mapsto> \<lparr>Value = ''https://a.com'', ExpiresAt = 3\<rparr>] ''abc'' = Inl ErrKeyNotFound
   \<and> KV_Exists \<lparr>now = 5000000000, fault = None, copy_fault = None\<rparr>
       [''abc'' \<mapsto> \<lparr>Value = ''https://a.com'', ExpiresAt = 3\<rparr>] ''abc'' = (False, None)
   \<and> KV_Exists \<lparr>now = 5000000000, fault = None, copy_fault = None\<rparr>
       [''abc'' \<mapsto> \<lparr>Value = ''https://a.com'', ExpiresAt = 0\<rparr>] ''abc'' = (True, None)
   \<and> KV_Exists \<lparr>now = 5000000000, fault = Some ''db closed'', copy_fault = None\<rparr>
       [''abc'' \<mapsto> \<lparr>Value = ''https://a.com'', ExpiresAt = 0\<rparr>] ''abc''
       = (False, Some (ErrEngine ''db closed''))"
proof -
  let ?e = "\<lparr>now = 5000000000, fault = None, copy_fault = None\<rparr>"
  let ?f = "\<lparr>now = 5000000000, fault = Some ''db closed'', copy_fault = None\<rparr>"
  let ?d3 = "[''abc'' \<mapsto> \<lparr>Value = ''https://a.com'', ExpiresAt = 3\<rparr>]"
  let ?d0 = "[''abc'' \<mapsto> \<lparr>Value = ''https://a.com'', ExpiresAt = 0\<rparr>]"
  have a: "txn_Get ?e ?d3 ''abc'' = Inl ErrKeyNotFound"
    by (simp add: txn_Get_def isExpired_def uint64_def Unix_def)
  have b: "fault ?e = None \<and> live ?d0 ''abc'' (now ?e)"
    by (simp add: live_def isExpired_def)
  have c: "txn_Get ?f ?d0 ''abc'' = Inl (ErrEngine ''db closed'')
           \<and> \<not> errors_Is (ErrEngine ''db closed'') ErrKeyNotFound"
    by (simp add: txn_Get_def)
  from KV_Exists_outcomes[of ?e ?d3 "''abc''"] KV_Exists_outcomes[of ?e ?d0 "''abc''"]
    KV_Exists_outcomes[of ?f ?d0 "''abc''"] a b c
  show ?thesis by blast
qed

text \<open>
  Claim C6. Last write wins: after two successful shorten requests with the same custom
  code and non-empty urls \<open>u1\<close> and then \<open>u2\<close>, the store maps the code to \<open>u2\<close>, and a
  redirect request for the code (record not expired, engine not failing) redirects to
  \<open>u2\<close>.
\<close>

theorem create_overwrite_last_wins:
  assumes "code \<noteq> []" and "u1 \<noteq> []" and "u2 \<noteq> []"
    and "createHandler rnd1 ea db \<lparr>custom = code, url = u1, expiry = x1\<rparr> len
           = (StatusJSON StatusCreated ''short_code'' c1, db1)"
    and "createHandler rnd2 eb db1 \<lparr>custom = code, url = u2, expiry = x2\<rparr> len
           = (StatusJSON StatusCreated ''short_code'' c2, db2)"
  shows "c1 = code \<and> c2 = code \<and> map_option Value (db2 code) = Some u2
         \<and> (fault e1 = None \<and> healthy e2 \<and> \<not> expired db2 code (now e1)
              \<and> \<not> expired db2 code (now e2)
            \<longrightarrow> redirectHandler e1 e2 db2 code = RedirectTo u2)"
proof -
  from createHandler_Created[OF assms(4)] assms(1) have c1: "c1 = code"
    by simp
  from createHandler_Created[OF assms(5)] assms(1) obtain it where
    c2: "c2 = code" and v: "Value it = u2" and d: "db2 = db1(c2 \<mapsto> it)"
    by auto
  from c2 d have look: "db2 code = Some it" by simp
  have "redirectHandler e1 e2 db2 code = RedirectTo u2"
    if "fault e1 = None" and "healthy e2"
      and "\<not> expired db2 code (now e1)" and "\<not> expired db2 code (now e2)"
  proof -
    from that(3,4) look have "\<not> isExpired it (now e1)" "\<not> isExpired it (now e2)"
      by (simp_all add: expired_def)
    from redirectHandler_live[of e1 e2 db2 code it, OF that(1,2) look this] v
    show ?thesis by simp
  qed
  with c1 c2 look v show ?thesis by simp
qed

theorem create_overwrite_last_wins_witness:
  "createHandler [] \<lparr>now = 1700000000000000000, fault = None, copy_fault = None\<rparr> Map.empty
       \<lparr>custom = ''abc'', url = ''https://a.com'', expiry = []\<rparr> 6
     = (StatusJSON StatusCreated ''short_code'' ''abc'',
        [''abc'' \<mapsto> \<lparr>Value = ''https://a.com'', ExpiresAt = 0\<rparr>])
   \<and> createHandler [] \<lparr>now = 1700000001000000000, fault = None, copy_fault = None\<rparr>
       [''abc'' \<mapsto> \<lparr>Value = ''https://a.com'', ExpiresAt = 0\<rparr>]
       \<lparr>custom = ''abc'', url = ''https://b.com'', expiry = []\<rparr> 6
     = (StatusJSON StatusCreated ''short_code'' ''abc'',
        [''abc'' \<mapsto> \<lparr>Value = ''https://b.com'', ExpiresAt = 0\<rparr>])
   \<and> redirectHandler \<lparr>now = 1700000002000000000, fault = None, copy_fault = None\<rparr>
       \<lparr>now = 1700000002000000000, fault = None, copy_fault = None\<rparr>
       [''abc'' \<mapsto> \<lparr>Value = ''https://b.com'', ExpiresAt = 0\<rparr>] ''abc''
     = RedirectTo ''https://b.com''"
proof -
  let ?ea = "\<lparr>now = 1700000000000000000, fault = None, copy_fault = None\<rparr>"
  let ?eb = "\<lparr>now = 1700000001000000000, fault = None, copy_fault = None\<rparr>"
  let ?e = "\<lparr>now = 1700000002000000000, fault = None, copy_fault = None\<rparr>"
  let ?d1 = "[''abc'' \<mapsto> \<lparr>Value = ''https://a.com'', ExpiresAt = 0\<rparr>]"
  let ?d2 = "[''abc'' \<mapsto> \<lparr>Value = ''https://b.com'', ExpiresAt = 0\<rparr>]"
  have n: "''abc'' \<noteq> []" "''https://a.com'' \<noteq> []" "''https://b.com'' \<noteq> []"
    by simp_all
  have h1: "createHandler [] ?ea Map.empty
      \<lparr>custom = ''abc'', url = ''https://a.com'', expiry = []\<rparr> 6
     = (StatusJSON StatusCreated ''short_code'' ''abc'', ?d1)"
    by (simp add: createHandler_def createHandler_write_def KV_Set_def txn_SetEntry_def
        NewEntry_def)
  have h2: "createHandler [] ?eb ?d1
      \<lparr>custom = ''abc'', url = ''https://b.com'', expiry = []\<rparr> 6
     = (StatusJSON StatusCreated ''short_code'' ''abc'', ?d2)"
    by (simp add: createHandler_def createHandler_write_def KV_Set_def txn_SetEntry_def
        NewEntry_def)
  have h3: "fault ?e = None \<and> healthy ?e \<and> \<not> expired ?d2 ''abc'' (now ?e)
      \<and> \<not> expired ?d2 ''abc'' (now ?e)"
    by (simp add: healthy_def expired_def isExpired_def)
  from create_overwrite_last_wins[OF n h1 h2, of ?e ?e] h1 h2 h3 show ?thesis
    by blast
qed

lemma KV_Delete_eq:
  "KV_Delete e db key = (r, db') \<Longrightarrow>
     (r = None \<and> db' = db(key := None)) \<or> (r \<noteq> None \<and> db' = db)"
  by (auto simp: KV_Delete_def txn_Delete_def split: option.splits)

lemma deleteHandler_NoContent:
  assumes "deleteHandler ea eb db code = (SendStatus StatusNoContent, db')"
  shows "db' = db(code := None)"
proof -
  obtain r d where k: "KV_Delete eb db code = (r, d)"
    by (cases "KV_Delete eb db code")
  from assms k have "r = None" and "d = db'"
    by (auto simp: deleteHandler_def split: prod.splits option.splits if_splits)
  with KV_Delete_eq[OF k] show ?thesis by simp
qed

text \<open>
  Claim C7. After a successful shorten request for a code and a successful delete
  request for it, a redirect request for the code is answered with not-found; and so
  is a redirect request for any code that has no live record. (The engine answers the
  lookup: a failing engine gives a 500 instead.)
\<close>

theorem delete_then_resolve_not_found:
  assumes "createHandler rnd e db c len = (StatusJSON StatusCreated ''short_code'' code, db1)"
    and "deleteHandler ea eb db1 code = (SendStatus StatusNoContent, db2)"
    and "fault e1 = None"
  shows "redirectHandler e1 e2 db2 code = NotFoundError
         \<and> (\<forall>db' k. \<not> live db' k (now e1) \<longrightarrow> redirectHandler e1 e2 db' k = NotFoundError)"
proof -
  from deleteHandler_NoContent[OF assms(2)] have "\<not> live db2 code (now e1)"
    by (simp add: live_def)
  from redirectHandler_absent[OF assms(3) this]
  have a: "redirectHandler e1 e2 db2 code = NotFoundError"
    by (simp add: NotFoundError_def)
  have b: "\<forall>db' k. \<not> live db' k (now e1) \<longrightarrow> redirectHandler e1 e2 db' k = NotFoundError"
    using redirectHandler_absent[OF assms(3)] by (simp add: NotFoundError_def)
  from a b show ?thesis by simp
qed

theorem delete_then_resolve_not_found_witness:
  "createHandler [] \<lparr>now = 1700000000000000000, fault = None, copy_fault = None\<rparr> Map.empty
       \<lparr>custom = ''xyz'', url = ''https://a.com'', expiry = []\<rparr> 6
     = (StatusJSON StatusCreated ''short_code'' ''xyz'',
        [''xyz'' \<mapsto> \<lparr>Value = ''https://a.com'', ExpiresAt = 0\<rparr>])
   \<and> deleteHandler \<lparr>now = 1700000001000000000, fault = None, copy_fault = None\<rparr>
        \<lparr>now = 1700000001000000000, fault = None, copy_fault = None\<rparr>
        [''xyz'' \<mapsto> \<lparr>Value = ''https://a.com'', ExpiresAt = 0\<rparr>] ''xyz''
     = (SendStatus StatusNoContent, Map.empty)
   \<and> redirectHandler \<lparr>now = 1700000002000000000, fault = None, copy_fault = None\<rparr>
        \<lparr>now = 1700000002000000000, fault = None, copy_fault = None\<rparr> Map.empty ''xyz''
     = SendStatus StatusNotFound
   \<and> redirectHandler \<lparr>now = 1700000002000000000, fault = None, copy_fault = None\<rparr>
        \<lparr>now = 1700000002000000000, fault = None, copy_fault = None\<rparr>
        [''old'' \<mapsto> \<lparr>Value = ''https://o.com'', ExpiresAt = 1600000000\<rparr>] ''old''
     = SendStatus StatusNotFound"
proof -
  let ?ea = "\<lparr>now = 1700000000000000000, fault = None, copy_fault = None\<rparr>"
  let ?eb = "\<lparr>now = 1700000001000000000, fault = None, copy_fault = None\<rparr>"
  let ?e = "\<lparr>now = 1700000002000000000, fault = None, copy_fault = None\<rparr>"
  let ?d1 = "[''xyz'' \<mapsto> \<lparr>Value = ''https://a.com'', ExpiresAt = 0\<rparr>]"
  let ?old = "[''old'' \<mapsto> \<lparr>Value = ''https://o.com'', ExpiresAt = 1600000000\<rparr>]"
  have h1: "createHandler [] ?ea Map.empty
      \<lparr>custom = ''xyz'', url = ''https://a.com'', expiry = []\<rparr> 6
     = (StatusJSON StatusCreated ''short_code'' ''xyz'', ?d1)"
    by (simp add: createHandler_def createHandler_write_def KV_Set_def txn_SetEntry_def
        NewEntry_def)
  have h2: "deleteHandler ?eb ?eb ?d1 ''xyz'' = (SendStatus StatusNoContent, Map.empty)"
    by (simp add: deleteHandler_def KV_Exists_eq live_def isExpired_def KV_Delete_def
        txn_Delete_def)
  have h3: "fault ?e = None" by simp
  have h4: "\<not> live ?old ''old'' (now ?e)"
    by (simp add: live_def isExpired_def uint64_def Unix_def)
  from delete_then_resolve_not_found[OF h1 h2 h3, of ?e] h1 h2 h4 show ?thesis
    by (simp add: NotFoundError_def)
qed

text \<open>
  Claim C8. A delete request for a code with no live record is answered with not-found,
  not with a store error, and leaves the store as it was; in the adapter, \<open>KV.Delete\<close> of
  a key that is absent returns no error.
\<close>

theorem remove_absent_not_found:
  "(fault e1 = None \<and> \<not> live db code (now e1)
      \<longrightarrow> deleteHandler e1 e2 db code = (NotFoundError, db))
   \<and> (fault e = None \<and> db key = None \<longrightarrow> KV_Delete e db key = (None, db))"
proof -
  have "db(key := None) = db" if "db key = None"
    using that by (simp add: fun_upd_idem)
  then show ?thesis
    by (simp add: deleteHandler_def KV_Exists_eq NotFoundError_def KV_Delete_def txn_Delete_def)
qed

theorem remove_absent_not_found_witness:
  "deleteHandler \<lparr>now = 1700000002000000000, fault = None, copy_fault = None\<rparr>
        \<lparr>now = 1700000002000000000, fault = None, copy_fault = None\<rparr>
        [''abc'' \<mapsto> \<lparr>Value = ''https://a.com'', ExpiresAt = 0\<rparr>] ''xyz''
     = (SendStatus StatusNotFound, [''abc'' \<mapsto> \<lparr>Value = ''https://a.com'', ExpiresAt = 0\<rparr>])
   \<and> KV_Delete \<lparr>now = 1700000002000000000, fault = None, copy_fault = None\<rparr>
        [''abc'' \<mapsto> \<lparr>Value = ''https://a.com'', ExpiresAt = 0\<rparr>] ''xyz''
     = (None, [''abc'' \<mapsto> \<lparr>Value = ''https://a.com'', ExpiresAt = 0\<rparr>])"
proof -
  let ?e = "\<lparr>now = 1700000002000000000, fault = None, copy_fault = None\<rparr>"
  let ?d = "[''abc'' \<mapsto> \<lparr>Value = ''https://a.com'', ExpiresAt = 0\<rparr>]"
  have h1: "fault ?e = None \<and> \<not> live ?d ''xyz'' (now ?e)"
    by (simp add: live_def)
  have h2: "fault ?e = None \<and> ?d ''xyz'' = None"
    by simp
  from remove_absent_not_found[of ?e ?d "''xyz''" ?e ?e "''xyz''"] h1 h2 show ?thesis
    by (simp add: NotFoundError_def)
qed

section \<open>The configured length\<close>

lemma Atoi_empty: "Atoi [] = None"
  by (simp add: Atoi_def)

text \<open>
  Claim C9. The configured short-code length is a positive integer: whenever the
  variable parses, it parses to a positive number. Then the length used for code
  generation is positive; it is 6 when the variable is unset or does not parse, and the
  configured number otherwise.
\<close>

theorem main_shortCode_default:
  assumes "\<forall>v. Atoi (Getenv cfg) = Some v \<longrightarrow> 0 < v"
  shows "0 < main_shortCode cfg
         \<and> (cfg = None \<or> Atoi (Getenv cfg) = None \<longrightarrow> main_shortCode cfg = 6)
         \<and> (\<forall>v. Atoi (Getenv cfg) = Some v \<longrightarrow> main_shortCode cfg = v)"
proof -
  have unset: "Atoi (Getenv None) = None"
    by (simp add: Getenv_def Atoi_empty)
  show ?thesis
  proof (cases "Atoi (Getenv cfg)")
    case None
    then show ?thesis by (simp add: main_shortCode_def)
  next
    case (Some v)
    with unset have "cfg \<noteq> None" by (cases cfg) simp_all
    moreover from assms Some have "0 < v" by simp
    ultimately show ?thesis using Some by (auto simp: main_shortCode_def)
  qed
qed

lemma Atoi_eight: "Atoi ''8'' = Some 8"
  by (simp add: Atoi_def)

theorem main_shortCode_default_witness:
  "Atoi (Getenv (Some ''8'')) = Some 8
   \<and> main_shortCode (Some ''8'') = 8 \<and> 0 < main_shortCode (Some ''8'')
   \<and> Atoi (Getenv (Some ''abc'')) = None \<and> main_shortCode (Some ''abc'') = 6
   \<and> main_shortCode None = 6"
proof -
  have a8: "Atoi (Getenv (Some ''8'')) = Some 8"
    by (simp add: Getenv_def Atoi_eight)
  have ab: "Atoi (Getenv (Some ''abc'')) = None"
    by (simp add: Getenv_def Atoi_abc)
  have an: "Atoi (Getenv None) = None"
    by (simp add: Getenv_def Atoi_empty)
  have h8: "\<forall>v. Atoi (Getenv (Some ''8'')) = Some v \<longrightarrow> 0 < v"
    by (simp add: a8)
  have hb: "\<forall>v. Atoi (Getenv (Some ''abc'')) = Some v \<longrightarrow> 0 < v"
    by (simp add: ab)
  have hn: "\<forall>v. Atoi (Getenv None) = Some v \<longrightarrow> 0 < v"
    by (simp add: an)
  from main_shortCode_default[OF h8] main_shortCode_default[OF hb]
    main_shortCode_default[OF hn] a8 ab
  show ?thesis by simp
qed

section \<open>Expiry times written by the adapter\<close>

lemma int64_id: "- (2 ^ 63) \<le> x \<Longrightarrow> x < 2 ^ 63 \<Longrightarrow> int64 x = x"
  by (simp add: int64_def)

lemma Unix_add_minutes: "Unix (t + m * Minute) = Unix t + 60 * m"
proof -
  have a: "m * Minute = (60 * m) * 1000000000"
    by (simp add: Minute_def)
  have b: "(t + (60 * m) * 1000000000) div 1000000000 = 60 * m + t div 1000000000"
    by (rule div_mult_self1) simp
  show ?thesis
    unfolding Unix_def a b by (rule add.commute)
qed

text \<open>
  With \<open>expiryMinutes = 0\<close> the item is written without expiry and is never expired.
\<close>

lemma KV_Set_no_expiry:
  assumes "fault e = None"
  shows "KV_Set e db key v 0 = (None, db(key \<mapsto> \<lparr>Value = v, ExpiresAt = 0\<rparr>))
         \<and> (\<forall>t. \<not> isExpired \<lparr>Value = v, ExpiresAt = 0\<rparr> t)"
  using assms by (simp add: KV_Set_def txn_SetEntry_def NewEntry_def isExpired_def)

text \<open>
  With \<open>0 < expiryMinutes \<le> 153722867\<close> the product with \<open>time.Minute\<close> fits an
  \<open>int64\<close> and the expiry time is the clock plus that many minutes.
\<close>

lemma KV_Set_ttl_in_range:
  assumes "fault e = None" and "0 < m" and "m \<le> 153722867"
  shows "KV_Set e db key v m
           = (None, db(key \<mapsto> \<lparr>Value = v, ExpiresAt = uint64 (Unix (now e) + 60 * m)\<rparr>))"
proof -
  from assms(2,3) have "int64 m = m"
    by (intro int64_id) simp_all
  moreover from assms(2,3) have "int64 (m * Minute) = m * Minute"
    by (intro int64_id) (simp_all add: Minute_def)
  ultimately show ?thesis
    using assms(1,2)
    by (simp add: KV_Set_def txn_SetEntry_def NewEntry_def WithTTL_def Unix_add_minutes)
qed

text \<open>
  Claim C4 says that a positive \<open>ttlMinutes\<close> is written as the current time plus
  \<open>ttlMinutes\<close> minutes. From 153722868 minutes on, the product
  \<open>time.Duration(expiryMinutes) * time.Minute\<close> wraps around. At 307445734 minutes the
  wrapped duration is about -33.7 seconds: the item is written with an expiry time 34
  seconds in the past instead of 20146744040, so a shorten request with
  \<open>expiry=307445734\<close> is answered 201 and a redirect request at the same instant 404.
\<close>

theorem KV_Set_ttl_overflow:
  "KV_Set \<lparr>now = 1700000000000000000, fault = None, copy_fault = None\<rparr> Map.empty
       ''abc'' ''https://x.com'' 307445734
     = (None, [''abc'' \<mapsto> \<lparr>Value = ''https://x.com'', ExpiresAt = 1699999966\<rparr>])
   \<and> uint64 (Unix 1700000000000000000 + 60 * 307445734) = 20146744040
   \<and> isExpired \<lparr>Value = ''https://x.com'', ExpiresAt = 1699999966\<rparr> 1700000000000000000
   \<and> createHandler [] \<lparr>now = 1700000000000000000, fault = None, copy_fault = None\<rparr> Map.empty
       \<lparr>custom = ''abc'', url = ''https://x.com'', expiry = ''307445734''\<rparr> 6
     = (StatusJSON StatusCreated ''short_code'' ''abc'',
        [''abc'' \<mapsto> \<lparr>Value = ''https://x.com'', ExpiresAt = 1699999966\<rparr>])
   \<and> redirectHandler \<lparr>now = 1700000000000000000, fault = None, copy_fault = None\<rparr>
        \<lparr>now = 1700000000000000000, fault = None, copy_fault = None\<rparr>
        [''abc'' \<mapsto> \<lparr>Value = ''https://x.com'', ExpiresAt = 1699999966\<rparr>] ''abc''
     = SendStatus StatusNotFound"
proof -
  let ?e = "\<lparr>now = 1700000000000000000, fault = None, copy_fault = None\<rparr>"
  have s: "KV_Set ?e Map.empty ''abc'' ''https://x.com'' 307445734
     = (None, [''abc'' \<mapsto> \<lparr>Value = ''https://x.com'', ExpiresAt = 1699999966\<rparr>])"
    by (simp add: KV_Set_def txn_SetEntry_def NewEntry_def WithTTL_def int64_def uint64_def
        Unix_def Minute_def)
  have u: "uint64 (Unix 1700000000000000000 + 60 * 307445734) = 20146744040"
    by (simp add: uint64_def Unix_def)
  have x: "isExpired \<lparr>Value = ''https://x.com'', ExpiresAt = 1699999966\<rparr> 1700000000000000000"
    by (simp add: isExpired_def uint64_def Unix_def)
  have a: "Atoi ''307445734'' = Some 307445734"
    by (simp add: Atoi_def)
  have c: "createHandler [] ?e Map.empty
       \<lparr>custom = ''abc'', url = ''https://x.com'', expiry = ''307445734''\<rparr> 6
     = (StatusJSON StatusCreated ''short_code'' ''abc'',
        [''abc'' \<mapsto> \<lparr>Value = ''https://x.com'', ExpiresAt = 1699999966\<rparr>])"
    by (simp add: createHandler_def createHandler_write_def a s)
  have r: "redirectHandler ?e ?e
        [''abc'' \<mapsto> \<lparr>Value = ''https://x.com'', ExpiresAt = 1699999966\<rparr>] ''abc''
     = SendStatus StatusNotFound"
    by (simp add: redirectHandler_def KV_Exists_eq live_def x)
  from s u x c r show ?thesis by blast
qed

end
